theory Spec2Isabelle
  imports Main "HOL-Library.Word"
begin

unbundle bit_operations_syntax

section \<open>RT5670 voice DSP driver (sound/soc/codecs/rt5670-dsp.c)\<close>

text \<open>
  A shallow embedding of the DSP part of the RT5670 codec driver. C \<^verbatim>\<open>unsigned int\<close>
  is \<^typ>\<open>32 word\<close>, a firmware byte is \<^typ>\<open>8 word\<close>. C \<^verbatim>\<open>int\<close> values (return
  codes, the mode, the table length) are \<^typ>\<open>int\<close>: every \<^verbatim>\<open>int\<close> the driver computes
  itself stays far inside 32 bits (a byte times five, a byte shifted by eight), and the
  conversions between the two are written out with \<^const>\<open>sint\<close> and \<^const>\<open>word_of_int\<close>.
\<close>

type_synonym u8 = "8 word"
type_synonym u32 = "32 word"

subsection \<open>Constants of the headers\<close>

text \<open>
  \<^verbatim>\<open>rt5670.h\<close> and \<^verbatim>\<open>rt5670-dsp.h\<close> give the register numbers and the bit fields of
  the command word. The driver is read against any values of them: they are the fields of
  a record passed to every function.
\<close>

record rt5670_hdr =
  RT5670_DSP_CTRL1 :: u32
  RT5670_DSP_CTRL2 :: u32
  RT5670_DSP_CTRL3 :: u32
  RT5670_DSP_CTRL5 :: u32
  RT5670_DIG_MISC :: u32
  RT5670_RST_DSP :: u32
  RT5670_DSP_BUSY_MASK :: u32
  RT5670_DSP_RW_MASK :: u32
  RT5670_DSP_I2C_AL_16 :: u32
  RT5670_DSP_DL_0 :: u32
  RT5670_DSP_DL_1 :: u32
  RT5670_DSP_DL_2 :: u32
  RT5670_DSP_CMD_MW :: u32
  RT5670_DSP_CMD_MR :: u32
  RT5670_DSP_CMD_RR :: u32
  RT5670_DSP_CLK_96K :: u32
  RT5670_DSP_CMD_EN :: u32

text \<open>\<^verbatim>\<open>#define DSP_CLK_RATE RT5670_DSP_CLK_96K\<close>\<close>

definition DSP_CLK_RATE :: "rt5670_hdr \<Rightarrow> u32" where
  "DSP_CLK_RATE H = RT5670_DSP_CLK_96K H"

text \<open>The kernel's error numbers (errno-base.h).\<close>

definition EBUSY :: int where
  "EBUSY = 16"

definition EINVAL :: int where
  "EINVAL = 22"

subsection \<open>The codec and the register I/O of the sound core\<close>

text \<open>
  The driver reaches the chip only through \<^verbatim>\<open>snd_soc_read\<close>, \<^verbatim>\<open>snd_soc_write\<close>,
  \<^verbatim>\<open>snd_soc_update_bits\<close> and \<^verbatim>\<open>mdelay\<close>. Their behaviour is a parameter: a
  device state of any type \<open>'d\<close> and four functions on it. The codec carries the device
  state and the list of calls made so far, oldest first.
\<close>

datatype soc_call =
    Soc_read u32
  | Soc_write u32 u32
  | Soc_update_bits u32 u32 u32
  | Mdelay nat

record 'd snd_soc_codec =
  dev :: 'd
  calls :: "soc_call list"

record 'd soc_io =
  reg_read :: "'d \<Rightarrow> u32 \<Rightarrow> u32 \<times> 'd"
  reg_write :: "'d \<Rightarrow> u32 \<Rightarrow> u32 \<Rightarrow> int \<times> 'd"
  reg_update_bits :: "'d \<Rightarrow> u32 \<Rightarrow> u32 \<Rightarrow> u32 \<Rightarrow> int \<times> 'd"
  delay_ms :: "'d \<Rightarrow> nat \<Rightarrow> 'd"

definition snd_soc_read :: "'d soc_io \<Rightarrow> 'd snd_soc_codec \<Rightarrow> u32 \<Rightarrow> u32 \<times> 'd snd_soc_codec" where
  "snd_soc_read K c reg =
     (let (v, d) = reg_read K (dev c) reg
      in (v, c\<lparr>dev := d, calls := calls c @ [Soc_read reg]\<rparr>))"

definition snd_soc_write :: "'d soc_io \<Rightarrow> 'd snd_soc_codec \<Rightarrow> u32 \<Rightarrow> u32 \<Rightarrow> int \<times> 'd snd_soc_codec" where
  "snd_soc_write K c reg val =
     (let (ret, d) = reg_write K (dev c) reg val
      in (ret, c\<lparr>dev := d, calls := calls c @ [Soc_write reg val]\<rparr>))"

definition snd_soc_update_bits ::
  "'d soc_io \<Rightarrow> 'd snd_soc_codec \<Rightarrow> u32 \<Rightarrow> u32 \<Rightarrow> u32 \<Rightarrow> int \<times> 'd snd_soc_codec" where
  "snd_soc_update_bits K c reg msk val =
     (let (ret, d) = reg_update_bits K (dev c) reg msk val
      in (ret, c\<lparr>dev := d, calls := calls c @ [Soc_update_bits reg msk val]\<rparr>))"

definition mdelay :: "'d soc_io \<Rightarrow> 'd snd_soc_codec \<Rightarrow> nat \<Rightarrow> 'd snd_soc_codec" where
  "mdelay K c ms = c\<lparr>dev := delay_ms K (dev c) ms, calls := calls c @ [Mdelay ms]\<rparr>"

text \<open>
  What \<open>n\<close> reads of register \<open>reg\<close> in a row return, from device state \<open>d\<close> on.
\<close>

fun polls :: "'d soc_io \<Rightarrow> u32 \<Rightarrow> 'd \<Rightarrow> nat \<Rightarrow> u32 list" where
  "polls K reg d 0 = []"
| "polls K reg d (Suc n) = (case reg_read K d reg of (v, d') \<Rightarrow> v # polls K reg d' n)"

subsection \<open>rt5670_dsp_done\<close>

text \<open>The loop condition \<^verbatim>\<open>dsp_val & RT5670_DSP_BUSY_MASK\<close>.\<close>

definition dsp_busy :: "rt5670_hdr \<Rightarrow> u32 \<Rightarrow> bool" where
  "dsp_busy H dsp_val \<longleftrightarrow> dsp_val AND RT5670_DSP_BUSY_MASK H \<noteq> 0"

lemma count_step: "\<not> (10 :: u32) < count \<Longrightarrow> unat (count + 1) = Suc (unat count)"
  by (simp add: word_less_nat_alt unat_word_ariths)

text \<open>
  The \<^verbatim>\<open>while\<close> loop of \<^verbatim>\<open>rt5670_dsp_done\<close>, entered with the codec, the counter
  and the value read last.
\<close>

function dsp_done_loop ::
  "rt5670_hdr \<Rightarrow> 'd soc_io \<Rightarrow> 'd snd_soc_codec \<Rightarrow> u32 \<Rightarrow> u32 \<Rightarrow> int \<times> 'd snd_soc_codec" where
  "dsp_done_loop H K c count dsp_val =
     (if dsp_busy H dsp_val then
        if count > 10 then (- EBUSY, c)
        else (case snd_soc_read K c (RT5670_DSP_CTRL1 H) of
                (dsp_val', c') \<Rightarrow> dsp_done_loop H K c' (count + 1) dsp_val')
      else (0, c))"
  by pat_completeness auto
termination
  by (relation "measure (\<lambda>(H, K, c, count, dsp_val). 11 - unat count)")
     (auto simp: count_step word_less_nat_alt)

declare dsp_done_loop.simps [simp del]

definition rt5670_dsp_done :: "rt5670_hdr \<Rightarrow> 'd soc_io \<Rightarrow> 'd snd_soc_codec \<Rightarrow> int \<times> 'd snd_soc_codec" where
  "rt5670_dsp_done H K c =
     (case snd_soc_read K c (RT5670_DSP_CTRL1 H) of
        (dsp_val, c') \<Rightarrow> dsp_done_loop H K c' 0 dsp_val)"

subsection \<open>rt5670_dsp_write and rt5670_dsp_read\<close>

text \<open>
  Each \<^verbatim>\<open>if (ret < 0) goto err;\<close> is a branch that returns \<open>ret\<close> with the codec as
  it is then.
\<close>

definition rt5670_dsp_write ::
  "rt5670_hdr \<Rightarrow> 'd soc_io \<Rightarrow> 'd snd_soc_codec \<Rightarrow> u32 \<Rightarrow> u32 \<Rightarrow> int \<times> 'd snd_soc_codec" where
  "rt5670_dsp_write H K c addr val =
     (case snd_soc_write K c (RT5670_DSP_CTRL2 H) addr of (ret, c1) \<Rightarrow>
      if ret < 0 then (ret, c1) else
      case snd_soc_write K c1 (RT5670_DSP_CTRL3 H) val of (ret, c2) \<Rightarrow>
      if ret < 0 then (ret, c2) else
      let dsp_val = RT5670_DSP_I2C_AL_16 H OR RT5670_DSP_DL_2 H OR
                    RT5670_DSP_CMD_MW H OR DSP_CLK_RATE H OR RT5670_DSP_CMD_EN H
      in
      case snd_soc_write K c2 (RT5670_DSP_CTRL1 H) dsp_val of (ret, c3) \<Rightarrow>
      if ret < 0 then (ret, c3) else
      case rt5670_dsp_done H K c3 of (ret, c4) \<Rightarrow>
      if ret < 0 then (ret, c4) else
      (0, c4))"

text \<open>
  \<^verbatim>\<open>rt5670_dsp_read\<close> returns \<^verbatim>\<open>unsigned int\<close>: an error code leaves as
  \<open>word_of_int ret\<close>. The value of the last read goes through the \<^verbatim>\<open>int\<close> variable
  \<^verbatim>\<open>ret\<close> and back.
\<close>

definition rt5670_dsp_read ::
  "rt5670_hdr \<Rightarrow> 'd soc_io \<Rightarrow> 'd snd_soc_codec \<Rightarrow> u32 \<Rightarrow> u32 \<times> 'd snd_soc_codec" where
  "rt5670_dsp_read H K c reg =
     (case rt5670_dsp_done H K c of (ret, c1) \<Rightarrow>
      if ret < 0 then (word_of_int ret, c1) else
      case snd_soc_write K c1 (RT5670_DSP_CTRL2 H) reg of (ret, c2) \<Rightarrow>
      if ret < 0 then (word_of_int ret, c2) else
      let dsp_val = RT5670_DSP_I2C_AL_16 H OR RT5670_DSP_DL_0 H OR RT5670_DSP_RW_MASK H OR
                    RT5670_DSP_CMD_MR H OR DSP_CLK_RATE H OR RT5670_DSP_CMD_EN H
      in
      case snd_soc_write K c2 (RT5670_DSP_CTRL1 H) dsp_val of (ret, c3) \<Rightarrow>
      if ret < 0 then (word_of_int ret, c3) else
      case rt5670_dsp_done H K c3 of (ret, c4) \<Rightarrow>
      if ret < 0 then (word_of_int ret, c4) else
      case snd_soc_write K c4 (RT5670_DSP_CTRL2 H) 0x26 of (ret, c5) \<Rightarrow>
      if ret < 0 then (word_of_int ret, c5) else
      let dsp_val = RT5670_DSP_DL_1 H OR RT5670_DSP_CMD_RR H OR RT5670_DSP_RW_MASK H OR
                    DSP_CLK_RATE H OR RT5670_DSP_CMD_EN H
      in
      case snd_soc_write K c5 (RT5670_DSP_CTRL1 H) dsp_val of (ret, c6) \<Rightarrow>
      if ret < 0 then (word_of_int ret, c6) else
      case rt5670_dsp_done H K c6 of (ret, c7) \<Rightarrow>
      if ret < 0 then (word_of_int ret, c7) else
      case snd_soc_write K c7 (RT5670_DSP_CTRL2 H) 0x25 of (ret, c8) \<Rightarrow>
      if ret < 0 then (word_of_int ret, c8) else
      let dsp_val = RT5670_DSP_DL_1 H OR RT5670_DSP_CMD_RR H OR RT5670_DSP_RW_MASK H OR
                    DSP_CLK_RATE H OR RT5670_DSP_CMD_EN H
      in
      case snd_soc_write K c8 (RT5670_DSP_CTRL1 H) dsp_val of (ret, c9) \<Rightarrow>
      if ret < 0 then (word_of_int ret, c9) else
      case rt5670_dsp_done H K c9 of (ret, c10) \<Rightarrow>
      if ret < 0 then (word_of_int ret, c10) else
      case snd_soc_read K c10 (RT5670_DSP_CTRL5 H) of (v, c11) \<Rightarrow>
      let ret = sint v in
      if ret < 0 then (word_of_int ret, c11) else
      (word_of_int ret, c11))"

subsection \<open>The handshake as the specification words it\<close>

text \<open>
  The specification describes a register access as a list of steps, each a wait for the
  DSP or a write to a register, run in order until one fails. \<open>run_steps\<close> is that
  reading: it returns \<open>Some ret\<close> with the code of the first step that failed, having run
  nothing after it, and \<open>None\<close> when every step succeeded.
\<close>

datatype hs_step = Wait_ready | Bus_write u32 u32

fun run_step :: "rt5670_hdr \<Rightarrow> 'd soc_io \<Rightarrow> 'd snd_soc_codec \<Rightarrow> hs_step \<Rightarrow> int \<times> 'd snd_soc_codec" where
  "run_step H K c Wait_ready = rt5670_dsp_done H K c"
| "run_step H K c (Bus_write reg val) = snd_soc_write K c reg val"

fun run_steps ::
  "rt5670_hdr \<Rightarrow> 'd soc_io \<Rightarrow> 'd snd_soc_codec \<Rightarrow> hs_step list \<Rightarrow> int option \<times> 'd snd_soc_codec" where
  "run_steps H K c [] = (None, c)"
| "run_steps H K c (st # sts) =
     (case run_step H K c st of (ret, c') \<Rightarrow>
        if ret < 0 then (Some ret, c') else run_steps H K c' sts)"

subsection \<open>The firmware image\<close>

text \<open>
  \<^verbatim>\<open>struct firmware\<close>: the buffer \<^verbatim>\<open>data\<close>; \<^verbatim>\<open>size\<close> is its length. The global
  pointer \<^verbatim>\<open>rt5670_dsp_fw\<close> is an optional image, \<open>None\<close> for \<^verbatim>\<open>NULL\<close>.
\<close>

record firmware =
  fw_data :: "u8 list"

definition fw_size :: "firmware \<Rightarrow> nat" where
  "fw_size fw = length (fw_data fw)"

text \<open>
  \<^verbatim>\<open>fw->data[i]\<close> for a C \<^verbatim>\<open>int\<close> index. An index outside the buffer is undefined
  behaviour in C: here it is \<open>None\<close>, and the function that reads stops with a fault.
\<close>

datatype fault = Out_of_bounds

definition fw_byte :: "firmware \<Rightarrow> int \<Rightarrow> u8 option" where
  "fw_byte fw i =
     (if 0 \<le> i \<and> i < int (length (fw_data fw)) then Some (fw_data fw ! nat i) else None)"

subsection \<open>rt5670_dsp_set_mode\<close>

text \<open>
  \<^verbatim>\<open>rt5670_write_fw\<close> is called here and defined in another file of the driver: it is
  the parameter \<open>write_fw\<close>, any function of the codec, the image, the offset and the
  number of entries. A byte read promotes to \<^verbatim>\<open>int\<close> (\<^const>\<open>uint\<close>); \<open>pos\<close> is
  \<^verbatim>\<open>unsigned int\<close>, and \<^verbatim>\<open>pos + tab_num * 5\<close> is computed in \<^verbatim>\<open>unsigned int\<close> and
  compared with the \<^verbatim>\<open>size_t\<close> size.
\<close>

definition rt5670_dsp_set_mode ::
  "('d snd_soc_codec \<Rightarrow> firmware \<Rightarrow> u32 \<Rightarrow> int \<Rightarrow> int \<times> 'd snd_soc_codec) \<Rightarrow>
   firmware option \<Rightarrow> 'd snd_soc_codec \<Rightarrow> int \<Rightarrow> (fault + int) \<times> 'd snd_soc_codec" where
  "rt5670_dsp_set_mode write_fw rt5670_dsp_fw c mode =
     (case rt5670_dsp_fw of
        None \<Rightarrow> (Inr (- EINVAL), c)
      | Some fw \<Rightarrow>
          (case fw_byte fw 0 of
             None \<Rightarrow> (Inl Out_of_bounds, c)
           | Some b0 \<Rightarrow>
               let n = uint b0 in
               if mode \<le> n then
                 (case (fw_byte fw (mode * 3 + 2), fw_byte fw (mode * 3 + 1),
                        fw_byte fw (mode * 3 + 3)) of
                    (Some lo, Some hi, Some cnt) \<Rightarrow>
                      let pos = (word_of_int (uint lo OR push_bit 8 (uint hi)) :: u32);
                          tab_num = uint cnt
                      in
                      if unat (pos + word_of_int (tab_num * 5)) > fw_size fw
                      then (Inr (- EINVAL), c)
                      else (case write_fw c fw pos tab_num of (ret, c') \<Rightarrow> (Inr ret, c'))
                  | _ \<Rightarrow> (Inl Out_of_bounds, c))
               else (Inr (- EINVAL), c)))"

subsection \<open>rt5670_dsp_event and rt5670_dsp_fw_loaded\<close>

datatype dapm_event = SND_SOC_DAPM_POST_PMU | SND_SOC_DAPM_POST_PMD | Other_event

text \<open>
  \<open>dsp_sw\<close> is the field of \<^verbatim>\<open>struct rt5670_priv\<close> that the mode control sets. The
  return values of the calls are dropped, as in the source; only a fault of
  \<open>rt5670_dsp_set_mode\<close> is kept, since nothing is known of the run after it.
\<close>

definition rt5670_dsp_event ::
  "rt5670_hdr \<Rightarrow> 'd soc_io \<Rightarrow>
   ('d snd_soc_codec \<Rightarrow> firmware \<Rightarrow> u32 \<Rightarrow> int \<Rightarrow> int \<times> 'd snd_soc_codec) \<Rightarrow>
   firmware option \<Rightarrow> int \<Rightarrow> 'd snd_soc_codec \<Rightarrow> dapm_event \<Rightarrow> (fault + int) \<times> 'd snd_soc_codec" where
  "rt5670_dsp_event H K write_fw rt5670_dsp_fw dsp_sw c event =
     (case event of
        SND_SOC_DAPM_POST_PMD \<Rightarrow>
          (case rt5670_dsp_write H K c 0x22f9 1 of (ret, c1) \<Rightarrow> (Inr 0, c1))
      | SND_SOC_DAPM_POST_PMU \<Rightarrow>
          (case snd_soc_update_bits K c (RT5670_DIG_MISC H) (RT5670_RST_DSP H) (RT5670_RST_DSP H)
           of (r1, c1) \<Rightarrow>
           case snd_soc_update_bits K c1 (RT5670_DIG_MISC H) (RT5670_RST_DSP H) 0
           of (r2, c2) \<Rightarrow>
           let c3 = mdelay K c2 10 in
           case rt5670_dsp_set_mode write_fw rt5670_dsp_fw c3 dsp_sw of
             (Inl f, c4) \<Rightarrow> (Inl f, c4)
           | (Inr ret, c4) \<Rightarrow> (Inr 0, c4))
      | Other_event \<Rightarrow> (Inr 0, c))"

text \<open>
  The callback of \<^verbatim>\<open>request_firmware_nowait\<close>: its first argument is the delivered
  image (\<open>None\<close> for \<^verbatim>\<open>NULL\<close>), the second the global before the call; the result is the
  global after it.
\<close>

definition rt5670_dsp_fw_loaded :: "firmware option \<Rightarrow> firmware option \<Rightarrow> firmware option" where
  "rt5670_dsp_fw_loaded fw rt5670_dsp_fw = (case fw of Some f \<Rightarrow> Some f | None \<Rightarrow> rt5670_dsp_fw)"

subsection \<open>The replay of a table\<close>

text \<open>
  Modelled from the spec: \<^verbatim>\<open>rt5670_write_fw\<close>, which \<^verbatim>\<open>rt5670-dsp.c\<close> calls and does not
  define. The specification: for each of the \<open>tab_num\<close> entries of five bytes starting at
  \<open>pos\<close>, decode an address and a data value and write them with the handshake; stop at
  the first failure and return it; return success once all are applied. The layout of an
  entry is not given, so the decoding of its five bytes is the parameter \<open>decode\<close>.
\<close>

fun write_fw_entries ::
  "rt5670_hdr \<Rightarrow> 'd soc_io \<Rightarrow> (u8 list \<Rightarrow> u32 \<times> u32) \<Rightarrow> 'd snd_soc_codec \<Rightarrow> u8 list \<Rightarrow> nat \<Rightarrow>
   int \<times> 'd snd_soc_codec" where
  "write_fw_entries H K decode c bytes 0 = (0, c)"
| "write_fw_entries H K decode c bytes (Suc n) =
     (case decode (take 5 bytes) of (addr, val) \<Rightarrow>
      case rt5670_dsp_write H K c addr val of (ret, c') \<Rightarrow>
        if ret < 0 then (ret, c') else write_fw_entries H K decode c' (drop 5 bytes) n)"

definition rt5670_write_fw ::
  "rt5670_hdr \<Rightarrow> 'd soc_io \<Rightarrow> (u8 list \<Rightarrow> u32 \<times> u32) \<Rightarrow>
   'd snd_soc_codec \<Rightarrow> firmware \<Rightarrow> u32 \<Rightarrow> int \<Rightarrow> int \<times> 'd snd_soc_codec" where
  "rt5670_write_fw H K decode c fw pos tab_num =
     write_fw_entries H K decode c (drop (unat pos) (fw_data fw)) (nat tab_num)"

subsection \<open>A scripted device and sample header values\<close>

text \<open>
  For concrete runs: a device whose state is the list of values its next reads return and
  the list of codes its next writes return (0 once a list is used up), and one choice of
  header values. The register numbers 0xe0, 0xe1 and 0xe2 are those of the driver's
  comments; the other values are samples.
\<close>

definition script_io :: "(u32 list \<times> int list) soc_io" where
  "script_io =
     \<lparr>reg_read = (\<lambda>(rs, ws) reg. case rs of [] \<Rightarrow> (0, (rs, ws)) | r # rs' \<Rightarrow> (r, (rs', ws))),
      reg_write = (\<lambda>(rs, ws) reg val. case ws of [] \<Rightarrow> (0, (rs, ws)) | w # ws' \<Rightarrow> (w, (rs, ws'))),
      reg_update_bits = (\<lambda>d reg msk val. (0, d)),
      delay_ms = (\<lambda>d ms. d)\<rparr>"

definition script_codec :: "u32 list \<Rightarrow> int list \<Rightarrow> (u32 list \<times> int list) snd_soc_codec" where
  "script_codec rs ws = \<lparr>dev = (rs, ws), calls = []\<rparr>"

text \<open>A sample layout of a table entry: address and value, high byte first, and a spare byte.\<close>

definition decode0 :: "u8 list \<Rightarrow> u32 \<times> u32" where
  "decode0 bytes =
     (case bytes of
        [a1, a0, d1, d0, x] \<Rightarrow>
          (word_of_int (uint a1 * 256 + uint a0), word_of_int (uint d1 * 256 + uint d0))
      | _ \<Rightarrow> (0, 0))"

definition hdr0 :: rt5670_hdr where
  "hdr0 =
     \<lparr>RT5670_DSP_CTRL1 = 0xe0, RT5670_DSP_CTRL2 = 0xe1, RT5670_DSP_CTRL3 = 0xe2,
      RT5670_DSP_CTRL5 = 0xe4, RT5670_DIG_MISC = 0xfa, RT5670_RST_DSP = 0x2000,
      RT5670_DSP_BUSY_MASK = 0x20, RT5670_DSP_RW_MASK = 0x10, RT5670_DSP_I2C_AL_16 = 0,
      RT5670_DSP_DL_0 = 0, RT5670_DSP_DL_1 = 4, RT5670_DSP_DL_2 = 8,
      RT5670_DSP_CMD_MW = 0x3b00, RT5670_DSP_CMD_MR = 0x3700, RT5670_DSP_CMD_RR = 0x6000,
      RT5670_DSP_CLK_96K = 0xc0, RT5670_DSP_CMD_EN = 1\<rparr>"

text \<open>
  Sample images. \<open>fw_two_modes\<close>: count byte 1, mode 0 at offset 7 with two entries, mode
  1 at offset 17 with one entry, 22 bytes. \<open>fw_short_table\<close>: the slot of mode 0 gives
  offset 4 and one entry in an image of four bytes. \<open>fw_short_directory\<close>: count byte 2
  in an image of six bytes, which ends inside the slot of mode 1.
\<close>

definition fw_two_modes :: firmware where
  "fw_two_modes =
     \<lparr>fw_data = [1, 0, 7, 2, 0, 17, 1,
                 0x22, 0xf9, 0, 1, 0,  0x22, 0xfa, 0, 2, 0,
                 0x22, 0xfb, 0, 3, 0]\<rparr>"

definition fw_short_table :: firmware where
  "fw_short_table = \<lparr>fw_data = [0, 0, 4, 1]\<rparr>"

definition fw_short_directory :: firmware where
  "fw_short_directory = \<lparr>fw_data = [2, 0, 10, 1, 0, 20]\<rparr>"

section \<open>Properties\<close>

subsection \<open>Waiting for the DSP\<close>

lemma dev_snd_soc_read: "dev (snd (snd_soc_read K c reg)) = snd (reg_read K (dev c) reg)"
  by (simp add: snd_soc_read_def split: prod.split)

lemma fst_snd_soc_read: "fst (snd_soc_read K c reg) = fst (reg_read K (dev c) reg)"
  by (simp add: snd_soc_read_def split: prod.split)

lemma polls_after_read:
  "snd_soc_read K c reg = (v, c') \<Longrightarrow> polls K reg (dev c) (Suc n) = v # polls K reg (dev c') n"
  using dev_snd_soc_read [of K c reg] fst_snd_soc_read [of K c reg]
  by (simp split: prod.split)

lemma polls_take: "n \<le> m \<Longrightarrow> take n (polls K reg d m) = polls K reg d n"
proof (induction n arbitrary: d m)
  case 0
  show ?case by simp
next
  case (Suc n)
  then obtain m' where m: "m = Suc m'" and le: "n \<le> m'"
    by (cases m) simp_all
  show ?case
    by (simp add: m Suc.IH [OF le] split: prod.split)
qed

text \<open>
  The loop entered with the counter at \<open>j\<close>: it gives up exactly when the value in hand
  and the next \<open>11 - j\<close> reads all show the busy bit.
\<close>

lemma dsp_done_loop_result:
  "j \<le> 11 \<Longrightarrow>
   fst (dsp_done_loop H K c (of_nat j) dsp_val) =
     (if dsp_busy H dsp_val \<and> list_all (dsp_busy H) (polls K (RT5670_DSP_CTRL1 H) (dev c) (11 - j))
      then - EBUSY else 0)"
proof (induction "11 - j" arbitrary: j c dsp_val)
  case 0
  then have j: "j = 11" by simp
  show ?case
    by (subst dsp_done_loop.simps) (simp add: j)
next
  case (Suc m)
  then have j: "j \<le> 10" and m: "m = 11 - Suc j" by simp_all
  have nless: "\<not> (10 :: u32) < of_nat j"
    using j by (simp add: word_less_nat_alt unat_of_nat)
  have succ: "(of_nat j :: u32) + 1 = of_nat (Suc j)" by simp
  obtain v c' where rd: "snd_soc_read K c (RT5670_DSP_CTRL1 H) = (v, c')"
    by (cases "snd_soc_read K c (RT5670_DSP_CTRL1 H)")
  have IH: "fst (dsp_done_loop H K c' (of_nat (Suc j)) v) =
     (if dsp_busy H v \<and> list_all (dsp_busy H) (polls K (RT5670_DSP_CTRL1 H) (dev c') (11 - Suc j))
      then - EBUSY else 0)"
    using Suc.hyps(1) [OF m] j by simp
  have unfold: "dsp_done_loop H K c (of_nat j) dsp_val =
      (if dsp_busy H dsp_val then dsp_done_loop H K c' (of_nat (Suc j)) v else (0, c))"
    by (subst dsp_done_loop.simps) (simp only: nless if_False rd prod.case succ)
  have shift: "list_all (dsp_busy H) (polls K (RT5670_DSP_CTRL1 H) (dev c) (11 - j)) \<longleftrightarrow>
      dsp_busy H v \<and> list_all (dsp_busy H) (polls K (RT5670_DSP_CTRL1 H) (dev c') (11 - Suc j))"
  proof -
    have "11 - j = Suc (11 - Suc j)" using j by simp
    then show ?thesis
      by (simp only: polls_after_read [OF rd] list.pred_inject)
  qed
  show ?case
  proof (cases "dsp_busy H dsp_val")
    case True
    have "fst (dsp_done_loop H K c (of_nat j) dsp_val) =
          fst (dsp_done_loop H K c' (of_nat (Suc j)) v)"
      by (simp only: unfold True if_True)
    then show ?thesis
      by (simp only: IH shift True simp_thms)
  next
    case False
    then show ?thesis
      by (simp only: unfold if_False fst_conv simp_thms)
  qed
qed

lemma rt5670_dsp_done_result:
  "fst (rt5670_dsp_done H K c) =
     (if list_all (dsp_busy H) (polls K (RT5670_DSP_CTRL1 H) (dev c) 12) then - EBUSY else 0)"
proof -
  obtain v c' where rd: "snd_soc_read K c (RT5670_DSP_CTRL1 H) = (v, c')"
    by (cases "snd_soc_read K c (RT5670_DSP_CTRL1 H)")
  have shift: "list_all (dsp_busy H) (polls K (RT5670_DSP_CTRL1 H) (dev c) 12) \<longleftrightarrow>
      dsp_busy H v \<and> list_all (dsp_busy H) (polls K (RT5670_DSP_CTRL1 H) (dev c') 11)"
  proof -
    have "(12::nat) = Suc 11" by simp
    then show ?thesis
      by (simp only: polls_after_read [OF rd] list.pred_inject)
  qed
  have "fst (dsp_done_loop H K c' 0 v) =
     (if dsp_busy H v \<and> list_all (dsp_busy H) (polls K (RT5670_DSP_CTRL1 H) (dev c') 11)
      then - EBUSY else 0)"
    using dsp_done_loop_result [of 0 H K c' v] by simp
  then show ?thesis
    by (simp only: rt5670_dsp_done_def rd prod.case shift)
qed

text \<open>
  C1, as amended. \<open>rt5670_dsp_done\<close> returns \<open>-EBUSY\<close> if and only if the first twelve
  reads of the command/status register (the read before the loop and eleven re-reads) all
  show the busy bit, and 0 otherwise. So any run of at most eleven busy reads followed by
  a clear read succeeds (ten busy reads and a clear one among them), and a status that
  stays busy for twelve reads or more gives \<open>-EBUSY\<close>.
\<close>

theorem rt5670_dsp_done_busy_iff:
  "(fst (rt5670_dsp_done H K c) = - EBUSY \<longleftrightarrow>
      list_all (dsp_busy H) (polls K (RT5670_DSP_CTRL1 H) (dev c) 12)) \<and>
   (fst (rt5670_dsp_done H K c) = 0 \<longleftrightarrow>
      \<not> list_all (dsp_busy H) (polls K (RT5670_DSP_CTRL1 H) (dev c) 12)) \<and>
   (\<forall>n bs v. n \<le> 11 \<and> polls K (RT5670_DSP_CTRL1 H) (dev c) (Suc n) = bs @ [v] \<and> \<not> dsp_busy H v
      \<longrightarrow> fst (rt5670_dsp_done H K c) = 0) \<and>
   (\<forall>m. 12 \<le> m \<and> list_all (dsp_busy H) (polls K (RT5670_DSP_CTRL1 H) (dev c) m)
      \<longrightarrow> fst (rt5670_dsp_done H K c) = - EBUSY)"
proof (intro conjI allI impI)
  show "fst (rt5670_dsp_done H K c) = - EBUSY \<longleftrightarrow>
      list_all (dsp_busy H) (polls K (RT5670_DSP_CTRL1 H) (dev c) 12)"
    by (simp add: rt5670_dsp_done_result EBUSY_def)
  show "fst (rt5670_dsp_done H K c) = 0 \<longleftrightarrow>
      \<not> list_all (dsp_busy H) (polls K (RT5670_DSP_CTRL1 H) (dev c) 12)"
    by (simp add: rt5670_dsp_done_result EBUSY_def)
next
  fix n bs v
  assume a: "n \<le> 11 \<and> polls K (RT5670_DSP_CTRL1 H) (dev c) (Suc n) = bs @ [v] \<and> \<not> dsp_busy H v"
  then have le: "Suc n \<le> 12" by simp
  from a have eq: "polls K (RT5670_DSP_CTRL1 H) (dev c) (Suc n) = bs @ [v]" and nb: "\<not> dsp_busy H v"
    by blast+
  have "\<not> list_all (dsp_busy H) (polls K (RT5670_DSP_CTRL1 H) (dev c) (Suc n))"
    unfolding eq using nb by simp
  then have "\<not> list_all (dsp_busy H) (take (Suc n) (polls K (RT5670_DSP_CTRL1 H) (dev c) 12))"
    by (simp add: polls_take [OF le] del: polls.simps)
  then have "\<not> list_all (dsp_busy H) (polls K (RT5670_DSP_CTRL1 H) (dev c) 12)"
    by (auto simp: list_all_iff dest: in_set_takeD)
  then show "fst (rt5670_dsp_done H K c) = 0"
    by (simp add: rt5670_dsp_done_result)
next
  fix m
  assume a: "12 \<le> m \<and> list_all (dsp_busy H) (polls K (RT5670_DSP_CTRL1 H) (dev c) m)"
  then have "list_all (dsp_busy H) (take 12 (polls K (RT5670_DSP_CTRL1 H) (dev c) m))"
    by (auto simp: list_all_iff dest: in_set_takeD)
  then have "list_all (dsp_busy H) (polls K (RT5670_DSP_CTRL1 H) (dev c) 12)"
    using a by (simp add: polls_take del: polls.simps)
  then show "fst (rt5670_dsp_done H K c) = - EBUSY"
    by (simp add: rt5670_dsp_done_result)
qed

text \<open>
  Ten busy reads then a clear one: success. Twelve busy reads: \<open>-EBUSY\<close>.
\<close>

theorem rt5670_dsp_done_busy_iff_witness:
  "fst (rt5670_dsp_done hdr0 script_io (script_codec (replicate 10 0x20 @ [0]) [])) = 0 \<and>
   fst (rt5670_dsp_done hdr0 script_io (script_codec (replicate 12 0x20 @ [0]) [])) = - EBUSY"
proof -
  have p10: "(10::nat) \<le> 11 \<and>
      polls script_io (RT5670_DSP_CTRL1 hdr0) (dev (script_codec (replicate 10 0x20 @ [0]) [])) (Suc 10)
        = replicate 10 0x20 @ [0] \<and> \<not> dsp_busy hdr0 0"
    by code_simp
  have p12: "(12::nat) \<le> 12 \<and> list_all (dsp_busy hdr0)
      (polls script_io (RT5670_DSP_CTRL1 hdr0) (dev (script_codec (replicate 12 0x20 @ [0]) [])) 12)"
    by code_simp
  from rt5670_dsp_done_busy_iff [of hdr0 script_io "script_codec (replicate 10 0x20 @ [0]) []"] p10
  have "fst (rt5670_dsp_done hdr0 script_io (script_codec (replicate 10 0x20 @ [0]) [])) = 0"
    by blast
  moreover
  from rt5670_dsp_done_busy_iff [of hdr0 script_io "script_codec (replicate 12 0x20 @ [0]) []"] p12
  have "fst (rt5670_dsp_done hdr0 script_io (script_codec (replicate 12 0x20 @ [0]) [])) = - EBUSY"
    by blast
  ultimately show ?thesis by simp
qed

text \<open>
  C1 as first stated fails: with eleven busy reads followed by a clear read the busy bit
  has stayed set for more than ten reads in a row, and the function returns 0 after its
  twelfth read.
\<close>

theorem rt5670_dsp_done_eleven_busy_reads:
  "polls script_io (RT5670_DSP_CTRL1 hdr0) (dev (script_codec (replicate 11 0x20 @ [0]) [])) 12
     = replicate 11 0x20 @ [0] \<and>
   list_all (dsp_busy hdr0) (replicate 11 0x20) \<and>
   rt5670_dsp_done hdr0 script_io (script_codec (replicate 11 0x20 @ [0]) []) =
     (0, \<lparr>dev = ([], []), calls = replicate 12 (Soc_read (RT5670_DSP_CTRL1 hdr0))\<rparr>)"
  by code_simp

subsection \<open>The handshake of a write and of a read\<close>

text \<open>
  A failure among the first steps is the result of the whole run: the steps after it are
  not run.
\<close>

lemma run_steps_append:
  "run_steps H K c (xs @ ys) =
     (case run_steps H K c xs of
        (Some err, c') \<Rightarrow> (Some err, c')
      | (None, c') \<Rightarrow> run_steps H K c' ys)"
  by (induction xs arbitrary: c) (auto split: prod.splits)

lemma run_steps_error_negative:
  "run_steps H K c sts = (Some err, c') \<Longrightarrow> err < 0"
  by (induction sts arbitrary: c) (auto split: prod.splits if_splits)

text \<open>
  C3. \<open>rt5670_dsp_write\<close> is the run, in this order, of: the write of \<open>addr\<close> to the
  address register, the write of the data to the data register, the write of the command
  word (16-bit width, 2-byte length, memory write, clock rate, command enable) to the
  command register, and the wait for the DSP. The code of the first step that fails is
  returned with the codec as that step left it, so no later write is made; 0 is returned
  exactly when all four steps succeeded.
\<close>

theorem rt5670_dsp_write_sequence:
  "rt5670_dsp_write H K c addr val =
     (case run_steps H K c
        [Bus_write (RT5670_DSP_CTRL2 H) addr,
         Bus_write (RT5670_DSP_CTRL3 H) val,
         Bus_write (RT5670_DSP_CTRL1 H)
           (RT5670_DSP_I2C_AL_16 H OR RT5670_DSP_DL_2 H OR RT5670_DSP_CMD_MW H OR
            DSP_CLK_RATE H OR RT5670_DSP_CMD_EN H),
         Wait_ready] of
        (Some err, c') \<Rightarrow> (err, c')
      | (None, c') \<Rightarrow> (0, c')) \<and>
   (fst (rt5670_dsp_write H K c addr val) = 0 \<longleftrightarrow>
    fst (run_steps H K c
        [Bus_write (RT5670_DSP_CTRL2 H) addr,
         Bus_write (RT5670_DSP_CTRL3 H) val,
         Bus_write (RT5670_DSP_CTRL1 H)
           (RT5670_DSP_I2C_AL_16 H OR RT5670_DSP_DL_2 H OR RT5670_DSP_CMD_MW H OR
            DSP_CLK_RATE H OR RT5670_DSP_CMD_EN H),
         Wait_ready]) = None)"
proof -
  let ?steps = "[Bus_write (RT5670_DSP_CTRL2 H) addr,
         Bus_write (RT5670_DSP_CTRL3 H) val,
         Bus_write (RT5670_DSP_CTRL1 H)
           (RT5670_DSP_I2C_AL_16 H OR RT5670_DSP_DL_2 H OR RT5670_DSP_CMD_MW H OR
            DSP_CLK_RATE H OR RT5670_DSP_CMD_EN H),
         Wait_ready]"
  have eq: "rt5670_dsp_write H K c addr val =
     (case run_steps H K c ?steps of (Some err, c') \<Rightarrow> (err, c') | (None, c') \<Rightarrow> (0, c'))"
    by (simp add: rt5670_dsp_write_def Let_def split: prod.split)
  obtain r c' where r: "run_steps H K c ?steps = (r, c')"
    by (cases "run_steps H K c ?steps")
  have "fst (rt5670_dsp_write H K c addr val) = 0 \<longleftrightarrow> r = None"
  proof (cases r)
    case None
    then show ?thesis unfolding eq r by simp
  next
    case (Some err)
    then have "err < 0"
      using run_steps_error_negative [of H K c ?steps err c'] r by simp
    then show ?thesis
      using Some unfolding eq r by simp
  qed
  with eq show ?thesis
    unfolding r by simp
qed

text \<open>
  Two runs: the command write fails with \<open>-5\<close> and nothing follows it; all steps succeed
  after one busy poll.
\<close>

theorem rt5670_dsp_write_sequence_witness:
  "rt5670_dsp_write hdr0 script_io (script_codec [] [0, 0, - 5]) 0x22f9 1 =
     (- 5, \<lparr>dev = ([], []),
            calls = [Soc_write 0xe1 0x22f9, Soc_write 0xe2 1, Soc_write 0xe0 0x3bc9]\<rparr>) \<and>
   rt5670_dsp_write hdr0 script_io (script_codec [0x20, 0] []) 0x22f9 1 =
     (0, \<lparr>dev = ([], []),
           calls = [Soc_write 0xe1 0x22f9, Soc_write 0xe2 1, Soc_write 0xe0 0x3bc9,
                    Soc_read 0xe0, Soc_read 0xe0]\<rparr>)"
proof -
  have a: "(case run_steps hdr0 script_io (script_codec [] [0, 0, - 5])
        [Bus_write (RT5670_DSP_CTRL2 hdr0) 0x22f9,
         Bus_write (RT5670_DSP_CTRL3 hdr0) 1,
         Bus_write (RT5670_DSP_CTRL1 hdr0)
           (RT5670_DSP_I2C_AL_16 hdr0 OR RT5670_DSP_DL_2 hdr0 OR RT5670_DSP_CMD_MW hdr0 OR
            DSP_CLK_RATE hdr0 OR RT5670_DSP_CMD_EN hdr0),
         Wait_ready] of
        (Some err, c') \<Rightarrow> (err, c')
      | (None, c') \<Rightarrow> (0, c')) =
     (- 5, \<lparr>dev = ([], []),
            calls = [Soc_write 0xe1 0x22f9, Soc_write 0xe2 1, Soc_write 0xe0 0x3bc9]\<rparr>)"
    by code_simp
  have b: "(case run_steps hdr0 script_io (script_codec [0x20, 0] [])
        [Bus_write (RT5670_DSP_CTRL2 hdr0) 0x22f9,
         Bus_write (RT5670_DSP_CTRL3 hdr0) 1,
         Bus_write (RT5670_DSP_CTRL1 hdr0)
           (RT5670_DSP_I2C_AL_16 hdr0 OR RT5670_DSP_DL_2 hdr0 OR RT5670_DSP_CMD_MW hdr0 OR
            DSP_CLK_RATE hdr0 OR RT5670_DSP_CMD_EN hdr0),
         Wait_ready] of
        (Some err, c') \<Rightarrow> (err, c')
      | (None, c') \<Rightarrow> (0, c')) =
     (0, \<lparr>dev = ([], []),
           calls = [Soc_write 0xe1 0x22f9, Soc_write 0xe2 1, Soc_write 0xe0 0x3bc9,
                    Soc_read 0xe0, Soc_read 0xe0]\<rparr>)"
    by code_simp
  show ?thesis
    using rt5670_dsp_write_sequence [of hdr0 script_io "script_codec [] [0, 0, - 5]" "0x22f9" 1]
      rt5670_dsp_write_sequence [of hdr0 script_io "script_codec [0x20, 0] []" "0x22f9" 1]
    by (simp only: a b simp_thms)
qed

text \<open>
  C2. For every register address and every behaviour of the bus, \<open>rt5670_dsp_read\<close> is
  the run, in this order, of: wait, address write, 16-bit memory-read command, wait, write
  of 0x26 to the address register, 1-byte register-read command, wait, write of 0x25 to
  the address register, the same register-read command, wait; then the read of the data
  register \<open>RT5670_DSP_CTRL5\<close>, whose value is the result. The code of the first wait or
  write that fails is returned (as \<^verbatim>\<open>unsigned int\<close>) with the codec as that step left it:
  nothing is issued after it and no partial value is returned.
\<close>

theorem rt5670_dsp_read_sequence:
  "rt5670_dsp_read H K c reg =
     (case run_steps H K c
        [Wait_ready,
         Bus_write (RT5670_DSP_CTRL2 H) reg,
         Bus_write (RT5670_DSP_CTRL1 H)
           (RT5670_DSP_I2C_AL_16 H OR RT5670_DSP_DL_0 H OR RT5670_DSP_RW_MASK H OR
            RT5670_DSP_CMD_MR H OR DSP_CLK_RATE H OR RT5670_DSP_CMD_EN H),
         Wait_ready,
         Bus_write (RT5670_DSP_CTRL2 H) 0x26,
         Bus_write (RT5670_DSP_CTRL1 H)
           (RT5670_DSP_DL_1 H OR RT5670_DSP_CMD_RR H OR RT5670_DSP_RW_MASK H OR
            DSP_CLK_RATE H OR RT5670_DSP_CMD_EN H),
         Wait_ready,
         Bus_write (RT5670_DSP_CTRL2 H) 0x25,
         Bus_write (RT5670_DSP_CTRL1 H)
           (RT5670_DSP_DL_1 H OR RT5670_DSP_CMD_RR H OR RT5670_DSP_RW_MASK H OR
            DSP_CLK_RATE H OR RT5670_DSP_CMD_EN H),
         Wait_ready] of
        (Some err, c') \<Rightarrow> (word_of_int err, c')
      | (None, c') \<Rightarrow> snd_soc_read K c' (RT5670_DSP_CTRL5 H))"
  by (simp add: rt5670_dsp_read_def Let_def split: prod.split)

text \<open>
  Two runs: the write of 0x26 fails with \<open>-5\<close> and nothing follows it; all steps succeed
  and the value read last is returned.
\<close>

theorem rt5670_dsp_read_sequence_witness:
  "rt5670_dsp_read hdr0 script_io (script_codec [0, 0] [0, 0, - 5]) 0x1234 =
     (word_of_int (- 5),
      \<lparr>dev = ([], []),
        calls = [Soc_read 0xe0, Soc_write 0xe1 0x1234, Soc_write 0xe0 0x37d1, Soc_read 0xe0,
                 Soc_write 0xe1 0x26]\<rparr>) \<and>
   rt5670_dsp_read hdr0 script_io (script_codec [0, 0x20, 0, 0, 0, 0xbeef] []) 0x1234 =
     (0xbeef,
      \<lparr>dev = ([], []),
        calls = [Soc_read 0xe0, Soc_write 0xe1 0x1234, Soc_write 0xe0 0x37d1,
                 Soc_read 0xe0, Soc_read 0xe0, Soc_write 0xe1 0x26, Soc_write 0xe0 0x60d5,
                 Soc_read 0xe0, Soc_write 0xe1 0x25, Soc_write 0xe0 0x60d5,
                 Soc_read 0xe0, Soc_read 0xe4]\<rparr>)"
  unfolding rt5670_dsp_read_sequence by code_simp

subsection \<open>Setting a mode\<close>

lemma slot_offset:
  fixes hi lo :: u8
  shows "uint lo OR push_bit 8 (uint hi) = uint hi * 256 + uint lo"
proof -
  have "uint lo AND push_bit 8 (uint hi) = 0"
    by (rule bit_eqI) (auto simp: bit_simps dest: bit_imp_le_length)
  then have "uint lo OR push_bit 8 (uint hi) = uint lo + push_bit 8 (uint hi)"
    by (simp add: disjunctive_add_eq_or)
  then show ?thesis
    by (simp add: push_bit_eq_mult)
qed

lemma uint_u8_bound: "uint (b :: u8) < 256"
  using uint_bounded [of b] by simp

lemma table_end:
  fixes hi lo cnt :: u8
  shows "unat ((word_of_int (uint hi * 256 + uint lo) :: u32) + word_of_int (uint cnt * 5)) =
         unat hi * 256 + unat lo + unat cnt * 5"
proof -
  define k where "k = uint hi * 256 + uint lo + uint cnt * 5"
  have b: "uint hi < 256" "uint lo < 256" "uint cnt < 256"
    by (rule uint_u8_bound)+
  have nn: "0 \<le> uint hi" "0 \<le> uint lo" "0 \<le> uint cnt"
    by simp_all
  have k0: "0 \<le> k" and k1': "k < 4294967296"
    using b nn unfolding k_def by linarith+
  have k1: "k < 2 ^ 32"
    using k1' by simp
  have "(word_of_int (uint hi * 256 + uint lo) :: u32) + word_of_int (uint cnt * 5) =
        word_of_int k"
    unfolding k_def by (simp only: of_int_add)
  moreover have "uint (word_of_int k :: u32) = k"
    using k0 k1 by (simp add: uint_word_of_int_eq take_bit_int_eq_self)
  ultimately have "unat ((word_of_int (uint hi * 256 + uint lo) :: u32) +
        word_of_int (uint cnt * 5)) = nat k"
    by (simp only: unat_eq_nat_uint)
  also have "nat k = unat hi * 256 + unat lo + unat cnt * 5"
    using nn unfolding k_def by (simp only: unat_eq_nat_uint)
  finally show ?thesis .
qed

lemma set_mode_no_firmware:
  "rt5670_dsp_set_mode write_fw None c mode = (Inr (- EINVAL), c)"
  by (simp add: rt5670_dsp_set_mode_def)

lemma set_mode_rejected:
  assumes "fw_byte fw 0 = Some b0" and "uint b0 < mode"
  shows "rt5670_dsp_set_mode write_fw (Some fw) c mode = (Inr (- EINVAL), c)"
  using assms by (simp add: rt5670_dsp_set_mode_def)

lemma set_mode_slot_read:
  assumes "fw_byte fw 0 = Some b0" and "mode \<le> uint b0"
    and "fw_byte fw (3 * mode + 1) = Some hi"
    and "fw_byte fw (3 * mode + 2) = Some lo"
    and "fw_byte fw (3 * mode + 3) = Some cnt"
  shows "rt5670_dsp_set_mode write_fw (Some fw) c mode =
     (if fw_size fw < unat hi * 256 + unat lo + unat cnt * 5 then (Inr (- EINVAL), c)
      else (case write_fw c fw (word_of_int (uint hi * 256 + uint lo)) (uint cnt) of
              (ret, c') \<Rightarrow> (Inr ret, c')))"
proof -
  have comm: "mode * 3 + 2 = 3 * mode + 2" "mode * 3 + 1 = 3 * mode + 1" "mode * 3 + 3 = 3 * mode + 3"
    by simp_all
  show ?thesis
    by (simp only: rt5670_dsp_set_mode_def comm assms option.case prod.case Let_def if_True
        slot_offset table_end)
qed

lemma set_mode_slot_fault:
  assumes "fw_byte fw 0 = Some b0" and "mode \<le> uint b0"
    and "fw_byte fw (3 * mode + 1) = None \<or> fw_byte fw (3 * mode + 2) = None \<or>
         fw_byte fw (3 * mode + 3) = None"
  shows "rt5670_dsp_set_mode write_fw (Some fw) c mode = (Inl Out_of_bounds, c)"
proof -
  have comm: "mode * 3 + 2 = 3 * mode + 2" "mode * 3 + 1 = 3 * mode + 1" "mode * 3 + 3 = 3 * mode + 3"
    by simp_all
  show ?thesis
    unfolding rt5670_dsp_set_mode_def comm
    using assms by (auto simp: Let_def split: option.split)
qed

lemma set_mode_accepted:
  assumes "fw_byte fw 0 = Some b0" and "mode \<le> uint b0"
  shows "rt5670_dsp_set_mode write_fw (Some fw) c mode =
     (case (fw_byte fw (3 * mode + 1), fw_byte fw (3 * mode + 2), fw_byte fw (3 * mode + 3)) of
        (Some hi, Some lo, Some cnt) \<Rightarrow>
          if fw_size fw < unat hi * 256 + unat lo + unat cnt * 5 then (Inr (- EINVAL), c)
          else (case write_fw c fw (word_of_int (uint hi * 256 + uint lo)) (uint cnt) of
                  (ret, c') \<Rightarrow> (Inr ret, c'))
      | _ \<Rightarrow> (Inl Out_of_bounds, c))"
proof (cases "fw_byte fw (3 * mode + 1) = None \<or> fw_byte fw (3 * mode + 2) = None \<or>
         fw_byte fw (3 * mode + 3) = None")
  case True
  show ?thesis
    unfolding set_mode_slot_fault [OF assms True]
    using True by (auto split: option.split)
next
  case False
  then obtain hi lo cnt where s: "fw_byte fw (3 * mode + 1) = Some hi"
      "fw_byte fw (3 * mode + 2) = Some lo" "fw_byte fw (3 * mode + 3) = Some cnt"
    by auto
  show ?thesis
    unfolding set_mode_slot_read [OF assms s]
    by (simp only: s option.case prod.case)
qed

lemma fw_byte_in: "0 \<le> i \<Longrightarrow> i < int (fw_size fw) \<Longrightarrow> fw_byte fw i = Some (fw_data fw ! nat i)"
  by (simp add: fw_byte_def fw_size_def)

lemma fw_byte_out: "int (fw_size fw) \<le> i \<Longrightarrow> fw_byte fw i = None"
  by (simp add: fw_byte_def fw_size_def)

text \<open>
  C4, as amended. Let \<open>n\<close> be byte 0 of a loaded image. If the directory slot of mode \<open>n\<close>
  (bytes \<open>3n + 1\<close> to \<open>3n + 3\<close>) lies inside the image, \<open>rt5670_dsp_set_mode\<close> with mode
  \<open>n\<close> passes the mode check and goes on: it returns \<open>-EINVAL\<close> when the table runs past
  the image and otherwise whatever the replay returns, so 0 when the replay succeeds. With
  mode \<open>n + 1\<close> it returns \<open>-EINVAL\<close> and leaves the codec as it was: no call is made.
\<close>

theorem rt5670_dsp_set_mode_inclusive_bound:
  assumes count: "fw_byte fw 0 = Some b0" and n: "n = uint b0"
  shows "(3 * n + 3 < int (fw_size fw) \<longrightarrow>
          rt5670_dsp_set_mode write_fw (Some fw) c n =
            (if fw_size fw < unat (fw_data fw ! nat (3 * n + 1)) * 256 +
                             unat (fw_data fw ! nat (3 * n + 2)) +
                             unat (fw_data fw ! nat (3 * n + 3)) * 5
             then (Inr (- EINVAL), c)
             else (case write_fw c fw
                          (word_of_int (uint (fw_data fw ! nat (3 * n + 1)) * 256 +
                                        uint (fw_data fw ! nat (3 * n + 2))))
                          (uint (fw_data fw ! nat (3 * n + 3))) of
                     (ret, c') \<Rightarrow> (Inr ret, c')))) \<and>
         rt5670_dsp_set_mode write_fw (Some fw) c (n + 1) = (Inr (- EINVAL), c)"
proof (intro conjI impI)
  assume slot: "3 * n + 3 < int (fw_size fw)"
  have n0: "0 \<le> n" by (simp add: n)
  have le: "n \<le> uint b0" by (simp add: n)
  have hi: "fw_byte fw (3 * n + 1) = Some (fw_data fw ! nat (3 * n + 1))"
    using n0 slot by (intro fw_byte_in) linarith+
  have lo: "fw_byte fw (3 * n + 2) = Some (fw_data fw ! nat (3 * n + 2))"
    using n0 slot by (intro fw_byte_in) linarith+
  have cnt: "fw_byte fw (3 * n + 3) = Some (fw_data fw ! nat (3 * n + 3))"
    using n0 slot by (intro fw_byte_in) linarith+
  show "rt5670_dsp_set_mode write_fw (Some fw) c n =
            (if fw_size fw < unat (fw_data fw ! nat (3 * n + 1)) * 256 +
                             unat (fw_data fw ! nat (3 * n + 2)) +
                             unat (fw_data fw ! nat (3 * n + 3)) * 5
             then (Inr (- EINVAL), c)
             else (case write_fw c fw
                          (word_of_int (uint (fw_data fw ! nat (3 * n + 1)) * 256 +
                                        uint (fw_data fw ! nat (3 * n + 2))))
                          (uint (fw_data fw ! nat (3 * n + 3))) of
                     (ret, c') \<Rightarrow> (Inr ret, c')))"
    by (rule set_mode_slot_read [OF count le hi lo cnt])
next
  have "uint b0 < n + 1" by (simp add: n)
  then show "rt5670_dsp_set_mode write_fw (Some fw) c (n + 1) = (Inr (- EINVAL), c)"
    by (rule set_mode_rejected [OF count])
qed

text \<open>
  The image \<open>fw_two_modes\<close> has count byte 1: mode 1 replays its one entry and returns 0,
  mode 2 is refused.
\<close>

theorem rt5670_dsp_set_mode_inclusive_bound_witness:
  "rt5670_dsp_set_mode (rt5670_write_fw hdr0 script_io decode0) (Some fw_two_modes)
       (script_codec [] []) 1 =
     (Inr 0, \<lparr>dev = ([], []),
              calls = [Soc_write 0xe1 0x22fb, Soc_write 0xe2 3, Soc_write 0xe0 0x3bc9,
                       Soc_read 0xe0]\<rparr>) \<and>
   rt5670_dsp_set_mode (rt5670_write_fw hdr0 script_io decode0) (Some fw_two_modes)
       (script_codec [] []) (1 + 1) =
     (Inr (- EINVAL), script_codec [] [])"
proof -
  have count: "fw_byte fw_two_modes 0 = Some 1"
    by code_simp
  have n: "(1::int) = uint (1::u8)"
    by simp
  have slot: "3 * (1::int) + 3 < int (fw_size fw_two_modes)"
    by code_simp
  have run: "(if fw_size fw_two_modes < unat (fw_data fw_two_modes ! nat (3 * 1 + 1)) * 256 +
                             unat (fw_data fw_two_modes ! nat (3 * 1 + 2)) +
                             unat (fw_data fw_two_modes ! nat (3 * 1 + 3)) * 5
             then (Inr (- EINVAL), script_codec [] [])
             else (case rt5670_write_fw hdr0 script_io decode0 (script_codec [] []) fw_two_modes
                          (word_of_int (uint (fw_data fw_two_modes ! nat (3 * 1 + 1)) * 256 +
                                        uint (fw_data fw_two_modes ! nat (3 * 1 + 2))))
                          (uint (fw_data fw_two_modes ! nat (3 * 1 + 3))) of
                     (ret, c') \<Rightarrow> (Inr ret, c'))) =
     (Inr 0 :: fault + int, \<lparr>dev = ([], []),
              calls = [Soc_write 0xe1 0x22fb, Soc_write 0xe2 3, Soc_write 0xe0 0x3bc9,
                       Soc_read 0xe0]\<rparr>)"
    by code_simp
  from rt5670_dsp_set_mode_inclusive_bound [OF count n,
      of "rt5670_write_fw hdr0 script_io decode0" "script_codec [] []"] slot
  show ?thesis
    by (simp only: run simp_thms)
qed

text \<open>
  C4 as first stated fails for an image too short to hold the slot: in the one-byte image
  with count byte 0, mode 0 passes the mode check and the slot is read past the end of
  the buffer.
\<close>

theorem rt5670_dsp_set_mode_short_image:
  "fw_byte \<lparr>fw_data = [0]\<rparr> 0 = Some 0 \<and>
   rt5670_dsp_set_mode (rt5670_write_fw hdr0 script_io decode0) (Some \<lparr>fw_data = [0]\<rparr>)
       (script_codec [] []) 0 =
     (Inl Out_of_bounds, script_codec [] [])"
  by code_simp


text \<open>
  C5. For a loaded image and a mode in range whose slot gives offset \<open>pos = hi * 256 + lo\<close>
  and \<open>tab_num = cnt\<close> entries with \<open>pos + tab_num * 5\<close> greater than the size of the image,
  \<open>rt5670_dsp_set_mode\<close> returns \<open>-EINVAL\<close> with the codec unchanged, whatever the replay
  function is: the replay is not run, so it makes no write and reads no byte.
\<close>

theorem rt5670_dsp_set_mode_table_past_end:
  assumes "fw_byte fw 0 = Some b0" and "0 \<le> mode" and "mode \<le> uint b0"
    and "fw_byte fw (3 * mode + 1) = Some hi"
    and "fw_byte fw (3 * mode + 2) = Some lo"
    and "fw_byte fw (3 * mode + 3) = Some cnt"
    and "fw_size fw < (unat hi * 256 + unat lo) + unat cnt * 5"
  shows "rt5670_dsp_set_mode write_fw (Some fw) c mode = (Inr (- EINVAL), c)"
  using set_mode_slot_read [OF assms(1) assms(3) assms(4) assms(5) assms(6), of write_fw c] assms(7)
  by simp

text \<open>In \<open>fw_short_table\<close> mode 0 has offset 4 and one entry, and the image has four bytes.\<close>

theorem rt5670_dsp_set_mode_table_past_end_witness:
  "rt5670_dsp_set_mode (rt5670_write_fw hdr0 script_io decode0) (Some fw_short_table)
       (script_codec [] []) 0 =
     (Inr (- EINVAL), script_codec [] [])"
proof -
  have slot: "fw_byte fw_short_table 0 = Some 0" "fw_byte fw_short_table (3 * 0 + 1) = Some 0"
      "fw_byte fw_short_table (3 * 0 + 2) = Some 4" "fw_byte fw_short_table (3 * 0 + 3) = Some 1"
    by code_simp+
  have past: "fw_size fw_short_table < (unat (0::u8) * 256 + unat (4::u8)) + unat (1::u8) * 5"
    by code_simp
  show ?thesis
    by (rule rt5670_dsp_set_mode_table_past_end [OF slot(1) _ _ slot(2) slot(3) slot(4) past]) simp_all
qed

text \<open>
  C10. The reads of the directory slot are not checked against the size: for a loaded
  image whose byte 0 is at least the mode and whose size is less than \<open>3 * mode + 4\<close>, the
  read at index \<open>3 * mode + 3\<close> is past the end of the buffer and \<open>rt5670_dsp_set_mode\<close>
  ends in the out-of-bounds fault.
\<close>

theorem rt5670_dsp_set_mode_directory_unchecked:
  assumes "fw_byte fw 0 = Some b0" and "0 \<le> mode" and "mode \<le> uint b0"
    and "int (fw_size fw) < 3 * mode + 4"
  shows "fw_byte fw (3 * mode + 3) = None \<and>
         rt5670_dsp_set_mode write_fw (Some fw) c mode = (Inl Out_of_bounds, c)"
proof -
  have out: "fw_byte fw (3 * mode + 3) = None"
    using assms(4) by (intro fw_byte_out) linarith
  then have "fw_byte fw (3 * mode + 1) = None \<or> fw_byte fw (3 * mode + 2) = None \<or>
         fw_byte fw (3 * mode + 3) = None"
    by simp
  from set_mode_slot_fault [OF assms(1) assms(3) this] out show ?thesis
    by simp
qed

text \<open>
  \<open>fw_short_directory\<close> has count byte 2 and six bytes: the slot of mode 1 would end at
  index 6.
\<close>

theorem rt5670_dsp_set_mode_directory_unchecked_witness:
  "fw_byte fw_short_directory 0 = Some 2 \<and>
   fw_byte fw_short_directory (3 * 1 + 3) = None \<and>
   rt5670_dsp_set_mode (rt5670_write_fw hdr0 script_io decode0) (Some fw_short_directory)
       (script_codec [] []) 1 =
     (Inl Out_of_bounds, script_codec [] [])"
proof -
  have count: "fw_byte fw_short_directory 0 = Some 2"
    by code_simp
  have short: "int (fw_size fw_short_directory) < 3 * 1 + 4"
    by code_simp
  from rt5670_dsp_set_mode_directory_unchecked [OF count _ _ short,
      of "rt5670_write_fw hdr0 script_io decode0" "script_codec [] []"] count
  show ?thesis
    by simp
qed

lemma uint_word_of_int_u32: "0 \<le> k \<Longrightarrow> k < 2 ^ 32 \<Longrightarrow> uint (word_of_int k :: u32) = k"
  by (simp add: uint_word_of_int_eq take_bit_int_eq_self)

lemma slot_offset_commuted:
  fixes hi lo :: u8
  shows "push_bit 8 (uint hi) OR uint lo = uint hi * 256 + uint lo"
  using slot_offset [of lo hi] by (simp only: or.commute)

lemma slot_pos_value:
  fixes hi lo :: u8
  shows "uint (word_of_int (push_bit 8 (uint hi) OR uint lo) :: u32) = uint hi * 256 + uint lo"
proof -
  have "uint hi * 256 + uint lo < 65536"
    using uint_u8_bound [of hi] uint_u8_bound [of lo] by linarith
  then have "uint hi * 256 + uint lo < 2 ^ 32"
    by simp
  moreover have "0 \<le> uint hi * 256 + uint lo"
    by simp
  ultimately have "uint (word_of_int (uint hi * 256 + uint lo) :: u32) = uint hi * 256 + uint lo"
    by (intro uint_word_of_int_u32)
  then show ?thesis
    by (simp only: slot_offset_commuted)
qed

lemma slot_pos_small:
  fixes hi lo :: u8
  shows "uint hi * 256 + uint lo < 2 ^ 16"
  using uint_u8_bound [of hi] uint_u8_bound [of lo] by simp

lemma table_end_int:
  fixes hi lo cnt :: u8
  shows "int (fw_size fw) < uint hi * 256 + uint lo + uint cnt * 5 \<longleftrightarrow>
         fw_size fw < unat hi * 256 + unat lo + unat cnt * 5"
proof -
  have "int (unat hi * 256 + unat lo + unat cnt * 5) = uint hi * 256 + uint lo + uint cnt * 5"
    by simp
  then show ?thesis
    by (metis of_nat_less_iff)
qed

lemma slot_pos_value_sum:
  fixes hi lo :: u8
  shows "uint (word_of_int (uint hi * 256 + uint lo) :: u32) = uint hi * 256 + uint lo"
  using slot_pos_value [of hi lo] by (simp only: slot_offset_commuted)

text \<open>
  C8. For a loaded image and a mode \<open>m\<close> in range, \<open>rt5670_dsp_set_mode\<close> reads the slot
  of the mode, which starts at byte \<open>1 + 3 * m\<close>: byte \<open>3 * m + 1\<close> is the high byte of the
  offset, byte \<open>3 * m + 2\<close> its low byte and byte \<open>3 * m + 3\<close> the number of entries. The
  offset is \<open>hi << 8 | lo\<close>, which is \<open>hi * 256 + lo\<close> and fits 16 bits; the offset and the
  count are what the bounds check and the replay get. A slot byte outside the buffer is
  the out-of-bounds fault.
\<close>

theorem rt5670_dsp_set_mode_slot_layout:
  assumes "fw_byte fw 0 = Some b0" and "0 \<le> m" and "m \<le> uint b0"
  shows "rt5670_dsp_set_mode write_fw (Some fw) c m =
     (case (fw_byte fw (3 * m + 1), fw_byte fw (3 * m + 2), fw_byte fw (3 * m + 3)) of
        (Some hi, Some lo, Some cnt) \<Rightarrow>
          (let pos = (word_of_int (push_bit 8 (uint hi) OR uint lo) :: u32);
               tab_num = uint cnt
           in if int (fw_size fw) < uint pos + tab_num * 5 then (Inr (- EINVAL), c)
              else (case write_fw c fw pos tab_num of (ret, c') \<Rightarrow> (Inr ret, c')))
      | _ \<Rightarrow> (Inl Out_of_bounds, c)) \<and>
     (\<forall>(hi :: u8) (lo :: u8).
        uint (word_of_int (push_bit 8 (uint hi) OR uint lo) :: u32) = uint hi * 256 + uint lo \<and>
        uint (word_of_int (push_bit 8 (uint hi) OR uint lo) :: u32) < 2 ^ 16)"
proof (rule conjI)
  show "rt5670_dsp_set_mode write_fw (Some fw) c m =
     (case (fw_byte fw (3 * m + 1), fw_byte fw (3 * m + 2), fw_byte fw (3 * m + 3)) of
        (Some hi, Some lo, Some cnt) \<Rightarrow>
          (let pos = (word_of_int (push_bit 8 (uint hi) OR uint lo) :: u32);
               tab_num = uint cnt
           in if int (fw_size fw) < uint pos + tab_num * 5 then (Inr (- EINVAL), c)
              else (case write_fw c fw pos tab_num of (ret, c') \<Rightarrow> (Inr ret, c')))
      | _ \<Rightarrow> (Inl Out_of_bounds, c))"
    by (simp only: set_mode_accepted [OF assms(1) assms(3)] Let_def slot_offset_commuted
        slot_pos_value_sum table_end_int)
  show "\<forall>(hi :: u8) (lo :: u8).
        uint (word_of_int (push_bit 8 (uint hi) OR uint lo) :: u32) = uint hi * 256 + uint lo \<and>
        uint (word_of_int (push_bit 8 (uint hi) OR uint lo) :: u32) < 2 ^ 16"
    by (simp only: slot_pos_value slot_pos_small simp_thms)
qed

text \<open>
  Mode 0 of \<open>fw_two_modes\<close>: slot bytes 0, 7, 2 give offset 7 and two entries, which are
  replayed; high byte 0x12 and low byte 0x34 make 0x1234.
\<close>

theorem rt5670_dsp_set_mode_slot_layout_witness:
  "rt5670_dsp_set_mode (rt5670_write_fw hdr0 script_io decode0) (Some fw_two_modes)
       (script_codec [] []) 0 =
     (Inr 0, \<lparr>dev = ([], []),
              calls = [Soc_write 0xe1 0x22f9, Soc_write 0xe2 1, Soc_write 0xe0 0x3bc9,
                       Soc_read 0xe0,
                       Soc_write 0xe1 0x22fa, Soc_write 0xe2 2, Soc_write 0xe0 0x3bc9,
                       Soc_read 0xe0]\<rparr>) \<and>
   uint (word_of_int (push_bit 8 (uint (0x12 :: u8)) OR uint (0x34 :: u8)) :: u32) = 0x1234"
proof -
  have count: "fw_byte fw_two_modes 0 = Some 1"
    by code_simp
  have run: "(case (fw_byte fw_two_modes (3 * 0 + 1), fw_byte fw_two_modes (3 * 0 + 2),
                    fw_byte fw_two_modes (3 * 0 + 3)) of
        (Some hi, Some lo, Some cnt) \<Rightarrow>
          (let pos = (word_of_int (push_bit 8 (uint hi) OR uint lo) :: u32);
               tab_num = uint cnt
           in if int (fw_size fw_two_modes) < uint pos + tab_num * 5
              then (Inr (- EINVAL), script_codec [] [])
              else (case rt5670_write_fw hdr0 script_io decode0 (script_codec [] [])
                           fw_two_modes pos tab_num of (ret, c') \<Rightarrow> (Inr ret, c')))
      | _ \<Rightarrow> (Inl Out_of_bounds, script_codec [] [])) =
     (Inr 0, \<lparr>dev = ([], []),
              calls = [Soc_write 0xe1 0x22f9, Soc_write 0xe2 1, Soc_write 0xe0 0x3bc9,
                       Soc_read 0xe0,
                       Soc_write 0xe1 0x22fa, Soc_write 0xe2 2, Soc_write 0xe0 0x3bc9,
                       Soc_read 0xe0]\<rparr>)"
    by code_simp
  have val: "uint (0x12 :: u8) * 256 + uint (0x34 :: u8) = 0x1234"
    by simp
  have range: "(0::int) \<le> 0" "(0::int) \<le> uint (1::u8)"
    by simp_all
  note layout = rt5670_dsp_set_mode_slot_layout [OF count range,
      of "rt5670_write_fw hdr0 script_io decode0" "script_codec [] []"]
  from layout [THEN conjunct1]
  have "rt5670_dsp_set_mode (rt5670_write_fw hdr0 script_io decode0) (Some fw_two_modes)
       (script_codec [] []) 0 =
     (Inr 0, \<lparr>dev = ([], []),
              calls = [Soc_write 0xe1 0x22f9, Soc_write 0xe2 1, Soc_write 0xe0 0x3bc9,
                       Soc_read 0xe0,
                       Soc_write 0xe1 0x22fa, Soc_write 0xe2 2, Soc_write 0xe0 0x3bc9,
                       Soc_read 0xe0]\<rparr>)"
    by (simp only: run)
  moreover from layout [THEN conjunct2]
  have "uint (word_of_int (push_bit 8 (uint (0x12 :: u8)) OR uint (0x34 :: u8)) :: u32) =
         uint (0x12 :: u8) * 256 + uint (0x34 :: u8)"
    by blast
  ultimately show ?thesis
    by (simp only: val simp_thms)
qed

text \<open>
  C7, as amended. With no firmware loaded \<open>rt5670_dsp_set_mode\<close> returns \<open>-EINVAL\<close> for
  every mode and leaves the codec unchanged. A mode above the count byte and a table that
  runs past the image give the very same result, so the returned code does not tell the
  three failures apart.
\<close>

theorem rt5670_dsp_set_mode_einval_everywhere:
  "rt5670_dsp_set_mode write_fw None c mode = (Inr (- EINVAL), c) \<and>
   (fw_byte fw 0 = Some b0 \<and> uint b0 < mode' \<longrightarrow>
      rt5670_dsp_set_mode write_fw (Some fw) c mode' =
      rt5670_dsp_set_mode write_fw None c mode) \<and>
   (fw_byte fw 0 = Some b0 \<and> mode' \<le> uint b0 \<and>
    fw_byte fw (3 * mode' + 1) = Some hi \<and> fw_byte fw (3 * mode' + 2) = Some lo \<and>
    fw_byte fw (3 * mode' + 3) = Some cnt \<and>
    fw_size fw < (unat hi * 256 + unat lo) + unat cnt * 5 \<longrightarrow>
      rt5670_dsp_set_mode write_fw (Some fw) c mode' =
      rt5670_dsp_set_mode write_fw None c mode)"
proof (intro conjI impI)
  show "rt5670_dsp_set_mode write_fw None c mode = (Inr (- EINVAL), c)"
    by (rule set_mode_no_firmware)
next
  assume "fw_byte fw 0 = Some b0 \<and> uint b0 < mode'"
  then have "rt5670_dsp_set_mode write_fw (Some fw) c mode' = (Inr (- EINVAL), c)"
    by (intro set_mode_rejected) blast+
  then show "rt5670_dsp_set_mode write_fw (Some fw) c mode' =
      rt5670_dsp_set_mode write_fw None c mode"
    by (simp only: set_mode_no_firmware)
next
  assume a: "fw_byte fw 0 = Some b0 \<and> mode' \<le> uint b0 \<and>
    fw_byte fw (3 * mode' + 1) = Some hi \<and> fw_byte fw (3 * mode' + 2) = Some lo \<and>
    fw_byte fw (3 * mode' + 3) = Some cnt \<and>
    fw_size fw < (unat hi * 256 + unat lo) + unat cnt * 5"
  then have "rt5670_dsp_set_mode write_fw (Some fw) c mode' =
     (if fw_size fw < unat hi * 256 + unat lo + unat cnt * 5 then (Inr (- EINVAL), c)
      else (case write_fw c fw (word_of_int (uint hi * 256 + uint lo)) (uint cnt) of
              (ret, c') \<Rightarrow> (Inr ret, c')))"
    by (intro set_mode_slot_read) blast+
  with a have "rt5670_dsp_set_mode write_fw (Some fw) c mode' = (Inr (- EINVAL), c)"
    by simp
  then show "rt5670_dsp_set_mode write_fw (Some fw) c mode' =
      rt5670_dsp_set_mode write_fw None c mode"
    by (simp only: set_mode_no_firmware)
qed

text \<open>No firmware and mode 7; \<open>fw_two_modes\<close> and mode 2, above its count byte 1.\<close>

theorem rt5670_dsp_set_mode_einval_everywhere_witness:
  "rt5670_dsp_set_mode (rt5670_write_fw hdr0 script_io decode0) None (script_codec [] []) 7 =
     (Inr (- EINVAL), script_codec [] []) \<and>
   rt5670_dsp_set_mode (rt5670_write_fw hdr0 script_io decode0) (Some fw_two_modes)
       (script_codec [] []) 2 =
     rt5670_dsp_set_mode (rt5670_write_fw hdr0 script_io decode0) None (script_codec [] []) 7"
proof -
  have pre: "fw_byte fw_two_modes 0 = Some 1 \<and> uint (1 :: u8) < 2"
    by code_simp
  from rt5670_dsp_set_mode_einval_everywhere [of "rt5670_write_fw hdr0 script_io decode0"
      "script_codec [] []" 7 fw_two_modes 1 2] pre
  show ?thesis
    by blast
qed

text \<open>
  C7 as first stated fails: no firmware, a mode out of range and a table past the end of
  the image all return \<open>-22\<close>.
\<close>

theorem rt5670_dsp_set_mode_same_code:
  "rt5670_dsp_set_mode (rt5670_write_fw hdr0 script_io decode0) None (script_codec [] []) 0 =
     (Inr (- 22), script_codec [] []) \<and>
   rt5670_dsp_set_mode (rt5670_write_fw hdr0 script_io decode0) (Some fw_short_table)
       (script_codec [] []) 1 =
     (Inr (- 22), script_codec [] []) \<and>
   rt5670_dsp_set_mode (rt5670_write_fw hdr0 script_io decode0) (Some fw_short_table)
       (script_codec [] []) 0 =
     (Inr (- 22), script_codec [] [])"
  by code_simp

subsection \<open>The firmware callback and the power event\<close>

text \<open>
  C6, as amended. The callback stores every image delivered: the first delivery sets the
  global, and a later delivery of an image replaces it. Only a \<^verbatim>\<open>NULL\<close> delivery leaves
  the stored image as it was.
\<close>

theorem rt5670_dsp_fw_loaded_stores:
  "rt5670_dsp_fw_loaded (Some f) rt5670_dsp_fw = Some f \<and>
   rt5670_dsp_fw_loaded None rt5670_dsp_fw = rt5670_dsp_fw \<and>
   rt5670_dsp_fw_loaded fw2 (rt5670_dsp_fw_loaded (Some f1) None) =
     (case fw2 of None \<Rightarrow> Some f1 | Some f2 \<Rightarrow> Some f2)"
  by (simp add: rt5670_dsp_fw_loaded_def split: option.split)

text \<open>A first delivery is stored, and a \<^verbatim>\<open>NULL\<close> delivery after it changes nothing.\<close>

theorem rt5670_dsp_fw_loaded_stores_witness:
  "rt5670_dsp_fw_loaded (Some fw_two_modes) None = Some fw_two_modes \<and>
   rt5670_dsp_fw_loaded None (rt5670_dsp_fw_loaded (Some fw_two_modes) None) = Some fw_two_modes"
  using rt5670_dsp_fw_loaded_stores [of fw_two_modes None None fw_two_modes]
    rt5670_dsp_fw_loaded_stores [of fw_two_modes "Some fw_two_modes" None fw_two_modes]
  by simp

text \<open>
  C6 as first stated fails: a second delivery, of another image, replaces the image
  stored first.
\<close>

theorem rt5670_dsp_fw_loaded_second_delivery:
  "rt5670_dsp_fw_loaded (Some fw_short_table) (rt5670_dsp_fw_loaded (Some fw_two_modes) None) =
     Some fw_short_table \<and>
   Some fw_short_table \<noteq> Some fw_two_modes"
  by code_simp

text \<open>
  C9. On \<^verbatim>\<open>SND_SOC_DAPM_POST_PMU\<close> the hook sets the reset bit, clears it, waits 10 ms and
  then calls \<open>rt5670_dsp_set_mode\<close> with \<open>dsp_sw\<close>, in this order: the mode is set on the
  codec whose calls are the three of the reset. Whatever code \<open>rt5670_dsp_set_mode\<close>
  returns, the hook returns 0; with no firmware loaded it returns 0 with exactly the three
  calls of the reset made.
\<close>

theorem rt5670_dsp_event_power_up:
  "(let c1 = snd (snd_soc_update_bits K c (RT5670_DIG_MISC H) (RT5670_RST_DSP H) (RT5670_RST_DSP H));
        c2 = snd (snd_soc_update_bits K c1 (RT5670_DIG_MISC H) (RT5670_RST_DSP H) 0);
        c3 = mdelay K c2 10
    in calls c3 = calls c @
         [Soc_update_bits (RT5670_DIG_MISC H) (RT5670_RST_DSP H) (RT5670_RST_DSP H),
          Soc_update_bits (RT5670_DIG_MISC H) (RT5670_RST_DSP H) 0,
          Mdelay 10] \<and>
       rt5670_dsp_event H K write_fw rt5670_dsp_fw dsp_sw c SND_SOC_DAPM_POST_PMU =
         (case rt5670_dsp_set_mode write_fw rt5670_dsp_fw c3 dsp_sw of
            (Inl f, c4) \<Rightarrow> (Inl f, c4)
          | (Inr ret, c4) \<Rightarrow> (Inr 0, c4)) \<and>
       rt5670_dsp_event H K write_fw None dsp_sw c SND_SOC_DAPM_POST_PMU = (Inr 0, c3))"
proof -
  have calls_upd: "calls (snd (snd_soc_update_bits K c' reg msk val)) =
      calls c' @ [Soc_update_bits reg msk val]" for c' :: "'a snd_soc_codec" and reg msk val
    by (simp add: snd_soc_update_bits_def split: prod.split)
  have calls_delay: "calls (mdelay K c' ms) = calls c' @ [Mdelay ms]"
    for c' :: "'a snd_soc_codec" and ms
    by (simp add: mdelay_def)
  have ev: "rt5670_dsp_event H K wf fwp dsp_sw c SND_SOC_DAPM_POST_PMU =
      (case rt5670_dsp_set_mode wf fwp
         (mdelay K (snd (snd_soc_update_bits K
            (snd (snd_soc_update_bits K c (RT5670_DIG_MISC H) (RT5670_RST_DSP H) (RT5670_RST_DSP H)))
            (RT5670_DIG_MISC H) (RT5670_RST_DSP H) 0)) 10) dsp_sw of
            (Inl f, c4) \<Rightarrow> (Inl f, c4)
          | (Inr ret, c4) \<Rightarrow> (Inr 0, c4))" for wf fwp
    by (simp add: rt5670_dsp_event_def Let_def split: prod.split)
  show ?thesis
    unfolding Let_def ev
    by (simp add: calls_upd calls_delay set_mode_no_firmware)
qed

text \<open>
  No firmware: the reset is done and the hook returns 0. With \<open>fw_two_modes\<close> and a bus on
  which the command write fails: the reset is done, the replay stops at the failed write,
  and the hook still returns 0.
\<close>

theorem rt5670_dsp_event_power_up_witness:
  "rt5670_dsp_event hdr0 script_io (rt5670_write_fw hdr0 script_io decode0) None 3
       (script_codec [] []) SND_SOC_DAPM_POST_PMU =
     (Inr 0, \<lparr>dev = ([], []),
              calls = [Soc_update_bits 0xfa 0x2000 0x2000, Soc_update_bits 0xfa 0x2000 0,
                       Mdelay 10]\<rparr>) \<and>
   rt5670_dsp_event hdr0 script_io (rt5670_write_fw hdr0 script_io decode0) (Some fw_two_modes) 1
       (script_codec [0x20] [0, 0, - 5]) SND_SOC_DAPM_POST_PMU =
     (Inr 0, \<lparr>dev = ([0x20], []),
              calls = [Soc_update_bits 0xfa 0x2000 0x2000, Soc_update_bits 0xfa 0x2000 0,
                       Mdelay 10,
                       Soc_write 0xe1 0x22fb, Soc_write 0xe2 3, Soc_write 0xe0 0x3bc9]\<rparr>)"
proof -
  have a: "mdelay script_io
      (snd (snd_soc_update_bits script_io
         (snd (snd_soc_update_bits script_io (script_codec [] []) (RT5670_DIG_MISC hdr0)
                 (RT5670_RST_DSP hdr0) (RT5670_RST_DSP hdr0)))
         (RT5670_DIG_MISC hdr0) (RT5670_RST_DSP hdr0) 0)) 10 =
     \<lparr>dev = ([], []),
       calls = [Soc_update_bits 0xfa 0x2000 0x2000, Soc_update_bits 0xfa 0x2000 0, Mdelay 10]\<rparr>"
    by code_simp
  have b: "(case rt5670_dsp_set_mode (rt5670_write_fw hdr0 script_io decode0) (Some fw_two_modes)
      (mdelay script_io
        (snd (snd_soc_update_bits script_io
           (snd (snd_soc_update_bits script_io (script_codec [0x20] [0, 0, - 5])
                   (RT5670_DIG_MISC hdr0) (RT5670_RST_DSP hdr0) (RT5670_RST_DSP hdr0)))
           (RT5670_DIG_MISC hdr0) (RT5670_RST_DSP hdr0) 0)) 10) 1 of
            (Inl f, c4) \<Rightarrow> (Inl f, c4)
          | (Inr ret, c4) \<Rightarrow> (Inr 0, c4)) =
     (Inr 0 :: fault + int, \<lparr>dev = ([0x20], []),
              calls = [Soc_update_bits 0xfa 0x2000 0x2000, Soc_update_bits 0xfa 0x2000 0,
                       Mdelay 10,
                       Soc_write 0xe1 0x22fb, Soc_write 0xe2 3, Soc_write 0xe0 0x3bc9]\<rparr>)"
    by code_simp
  note none = rt5670_dsp_event_power_up [of script_io "script_codec [] []" hdr0
      "rt5670_write_fw hdr0 script_io decode0" None 3, unfolded Let_def]
  note some = rt5670_dsp_event_power_up [of script_io "script_codec [0x20] [0, 0, - 5]" hdr0
      "rt5670_write_fw hdr0 script_io decode0" "Some fw_two_modes" 1, unfolded Let_def]
  from none [THEN conjunct2, THEN conjunct2]
  have "rt5670_dsp_event hdr0 script_io (rt5670_write_fw hdr0 script_io decode0) None 3
       (script_codec [] []) SND_SOC_DAPM_POST_PMU =
     (Inr 0, \<lparr>dev = ([], []),
              calls = [Soc_update_bits 0xfa 0x2000 0x2000, Soc_update_bits 0xfa 0x2000 0,
                       Mdelay 10]\<rparr>)"
    by (simp only: a)
  moreover
  from some [THEN conjunct2, THEN conjunct1]
  have "rt5670_dsp_event hdr0 script_io (rt5670_write_fw hdr0 script_io decode0) (Some fw_two_modes) 1
       (script_codec [0x20] [0, 0, - 5]) SND_SOC_DAPM_POST_PMU =
     (Inr 0, \<lparr>dev = ([0x20], []),
              calls = [Soc_update_bits 0xfa 0x2000 0x2000, Soc_update_bits 0xfa 0x2000 0,
                       Mdelay 10,
                       Soc_write 0xe1 0x22fb, Soc_write 0xe2 3, Soc_write 0xe0 0x3bc9]\<rparr>)"
    by (simp only: b)
  ultimately show ?thesis
    by (rule conjI)
qed

end
